theory Spec2Isabelle
  imports Main "HOL-Library.Word"
begin

unbundle bit_operations_syntax

section \<open>The I2C transport of the u-blox GNSS driver (sfe\_bus.cpp)\<close>

text \<open>
  The class \<open>SfeI2C\<close> of \<open>sfe_bus.cpp\<close> holds a pointer to the platform's bus
  controller and the peripheral's address, and forwards every transfer to the STM32 HAL.
  The HAL is not part of the repository: it is a parameter of the model (any function from
  a call and the bus's state to a status, received bytes and the bus's next state), and
  every call that reaches it is appended to a trace, so that "no call was made" can be
  stated.
\<close>

subsection \<open>Machine types\<close>

type_synonym uint8_t = "8 word"
type_synonym uint16_t = "16 word"
type_synonym uint32_t = "32 word"

text \<open>
  A bus controller object (\<open>I2C_HandleTypeDef\<close>) is identified by a number; a pointer
  to one is an \<open>option\<close>, \<open>None\<close> being \<open>nullptr\<close>.
\<close>

type_synonym I2C_HandleTypeDef = nat

subsection \<open>The platform bus service\<close>

text \<open>
  Modelled from the spec: \<open>HAL_StatusTypeDef\<close> is declared by the platform's HAL header,
  which is not under src/. The spec (External interfaces) has one "completed" outcome and
  collapses every other one (error, busy, timeout); the source only compares with
  \<open>HAL_OK\<close>.
\<close>

datatype HAL_StatusTypeDef = HAL_OK | HAL_ERROR | HAL_BUSY | HAL_TIMEOUT

text \<open>
  The source stores each status in a \<open>uint8_t ret\<close> and compares it with \<open>HAL_OK\<close>:
  the enumerators' values, as the conversion yields them.
\<close>

fun status_u8 :: "HAL_StatusTypeDef \<Rightarrow> uint8_t" where
  "status_u8 HAL_OK = 0"
| "status_u8 HAL_ERROR = 1"
| "status_u8 HAL_BUSY = 2"
| "status_u8 HAL_TIMEOUT = 3"

text \<open>
  Modelled from the spec: \<open>HAL_MAX_DELAY\<close> is a macro of the platform's HAL header, not
  under src/; the spec's "wait indefinitely for transaction completion", the largest
  32-bit timeout.
\<close>

definition HAL_MAX_DELAY :: uint32_t where
  "HAL_MAX_DELAY = 0xFFFFFFFF"

text \<open>
  Modelled from the spec: \<open>I2C_MEMADD_SIZE_8BIT\<close> is a macro of the platform's HAL
  header, not under src/; the spec's register address width of the byte-count register
  pair (one byte).
\<close>

definition I2C_MEMADD_SIZE_8BIT :: uint16_t where
  "I2C_MEMADD_SIZE_8BIT = 1"

text \<open>
  The four services the source calls, with the arguments as the source passes them
  (handle pointer, device address, ...). A transmit carries the bytes of the caller's
  buffer; the receiving calls carry only the requested size, the bytes come back in the
  reply.
\<close>

datatype hal_call =
    IsDeviceReady "I2C_HandleTypeDef option" uint16_t uint32_t uint32_t
  | Mem_Read "I2C_HandleTypeDef option" uint16_t uint16_t uint16_t uint16_t uint32_t
  | Master_Transmit "I2C_HandleTypeDef option" uint16_t "uint8_t list" uint16_t uint32_t
  | Master_Receive "I2C_HandleTypeDef option" uint16_t uint16_t uint32_t

type_synonym 'b hal = "hal_call \<Rightarrow> 'b \<Rightarrow> (HAL_StatusTypeDef \<times> uint8_t list) \<times> 'b"

record 'b world =
  bus :: 'b
  trace :: "hal_call list"

definition HAL_call ::
  "'b hal \<Rightarrow> hal_call \<Rightarrow> 'b world \<Rightarrow> HAL_StatusTypeDef \<times> uint8_t list \<times> 'b world" where
  "HAL_call hal c w =
     (case hal c (bus w) of
        ((st, rx), b') \<Rightarrow> (st, rx, \<lparr>bus = b', trace = trace w @ [c]\<rparr>))"

text \<open>
  A receiving call stores the bytes it got at the start of the buffer it was given and
  leaves the rest of the buffer as it was.
\<close>

definition store :: "uint8_t list \<Rightarrow> uint8_t list \<Rightarrow> uint8_t list" where
  "store pData rx = rx @ drop (length rx) pData"

definition HAL_I2C_IsDeviceReady ::
  "'b hal \<Rightarrow> I2C_HandleTypeDef option \<Rightarrow> uint16_t \<Rightarrow> uint32_t \<Rightarrow> uint32_t \<Rightarrow> 'b world
     \<Rightarrow> HAL_StatusTypeDef \<times> 'b world" where
  "HAL_I2C_IsDeviceReady hal hi2c DevAddress Trials Timeout w =
     (case HAL_call hal (IsDeviceReady hi2c DevAddress Trials Timeout) w of
        (st, rx, w') \<Rightarrow> (st, w'))"

definition HAL_I2C_Mem_Read ::
  "'b hal \<Rightarrow> I2C_HandleTypeDef option \<Rightarrow> uint16_t \<Rightarrow> uint16_t \<Rightarrow> uint16_t \<Rightarrow> uint8_t list
     \<Rightarrow> uint16_t \<Rightarrow> uint32_t \<Rightarrow> 'b world \<Rightarrow> HAL_StatusTypeDef \<times> uint8_t list \<times> 'b world" where
  "HAL_I2C_Mem_Read hal hi2c DevAddress MemAddress MemAddSize pData Size Timeout w =
     (case HAL_call hal (Mem_Read hi2c DevAddress MemAddress MemAddSize Size Timeout) w of
        (st, rx, w') \<Rightarrow> (st, store pData rx, w'))"

definition HAL_I2C_Master_Transmit ::
  "'b hal \<Rightarrow> I2C_HandleTypeDef option \<Rightarrow> uint16_t \<Rightarrow> uint8_t list \<Rightarrow> uint16_t \<Rightarrow> uint32_t
     \<Rightarrow> 'b world \<Rightarrow> HAL_StatusTypeDef \<times> 'b world" where
  "HAL_I2C_Master_Transmit hal hi2c DevAddress pData Size Timeout w =
     (case HAL_call hal (Master_Transmit hi2c DevAddress pData Size Timeout) w of
        (st, rx, w') \<Rightarrow> (st, w'))"

definition HAL_I2C_Master_Receive ::
  "'b hal \<Rightarrow> I2C_HandleTypeDef option \<Rightarrow> uint16_t \<Rightarrow> uint8_t list \<Rightarrow> uint16_t \<Rightarrow> uint32_t
     \<Rightarrow> 'b world \<Rightarrow> HAL_StatusTypeDef \<times> uint8_t list \<times> 'b world" where
  "HAL_I2C_Master_Receive hal hi2c DevAddress pData Size Timeout w =
     (case HAL_call hal (Master_Receive hi2c DevAddress Size Timeout) w of
        (st, rx, w') \<Rightarrow> (st, store pData rx, w'))"

subsection \<open>The class SfeI2C\<close>

text \<open>The members \<open>_i2cPort\<close> and \<open>_address\<close>.\<close>

record SfeI2C =
  i2cPort :: "I2C_HandleTypeDef option"
  address :: uint8_t

text \<open>The constructor: \<open>_i2cPort{nullptr}, _address{0}\<close>.\<close>

definition SfeI2C_ctor :: SfeI2C where
  "SfeI2C_ctor = \<lparr>i2cPort = None, address = 0\<rparr>"

text \<open>
  Every method returns its result, the object after the call and (when it can reach the
  bus) the world after the call. \<open>init\<close> takes a C++ reference, whose address is never
  null.
\<close>

definition init :: "SfeI2C \<Rightarrow> I2C_HandleTypeDef \<Rightarrow> uint8_t \<Rightarrow> bool \<times> SfeI2C" where
  "init this i2cHandle addr =
     (let this1 = (if i2cPort this = None then this\<lparr>i2cPort := Some i2cHandle\<rparr> else this);
          this2 = this1\<lparr>address := addr\<rparr>
      in (True, this2))"

definition ping :: "'b hal \<Rightarrow> SfeI2C \<Rightarrow> 'b world \<Rightarrow> bool \<times> SfeI2C \<times> 'b world" where
  "ping hal this w =
     (if i2cPort this = None then (False, this, w)
      else
        (case HAL_I2C_IsDeviceReady hal (i2cPort this) (ucast (address this)) 3 5 w of
           (st, w') \<Rightarrow>
             (let ret = status_u8 st
              in if ret \<noteq> status_u8 HAL_OK then (False, this, w') else (True, this, w'))))"

text \<open>
  \<open>available\<close> reads into a local array \<open>uint8_t data[2]\<close> that it does not initialise:
  the two bytes the array holds before the read are the argument \<open>data0\<close>. The count
  is \<open>(uint16_t)msb << 8 | lsb\<close>, computed in \<open>int\<close> (32 bits) after the integer
  promotions and converted to \<open>uint16_t\<close> by the assignment. \<open>return false\<close> in a
  function returning \<open>uint16_t\<close> is 0.
\<close>

definition available ::
  "'b hal \<Rightarrow> SfeI2C \<Rightarrow> uint8_t \<times> uint8_t \<Rightarrow> 'b world \<Rightarrow> uint16_t \<times> SfeI2C \<times> 'b world" where
  "available hal this data0 w =
     (if i2cPort this = None then (0, this, w)
      else
        (case HAL_I2C_Mem_Read hal (i2cPort this) (ucast (address this)) 0xFD
                I2C_MEMADD_SIZE_8BIT [fst data0, snd data0] 2 HAL_MAX_DELAY w of
           (st, data, w') \<Rightarrow>
             (let ret = status_u8 st
              in if ret \<noteq> status_u8 HAL_OK then (0, this, w')
                 else
                   (let msb = data ! 0;
                        lsb = data ! 1;
                        bytesAvailable =
                          (ucast (push_bit 8 (ucast (ucast msb :: uint16_t) :: 32 word)
                                  OR (ucast lsb :: 32 word)) :: uint16_t)
                    in (bytesAvailable, this, w')))))"

definition writeBytes ::
  "'b hal \<Rightarrow> SfeI2C \<Rightarrow> uint8_t list \<Rightarrow> uint8_t \<Rightarrow> 'b world \<Rightarrow> uint8_t \<times> SfeI2C \<times> 'b world" where
  "writeBytes hal this dataToWrite len w =
     (if len = 0 then (0, this, w)
      else
        (case HAL_I2C_Master_Transmit hal (i2cPort this) (ucast (address this)) dataToWrite
                (ucast len) HAL_MAX_DELAY w of
           (st, w') \<Rightarrow>
             (let ret = status_u8 st
              in if ret \<noteq> status_u8 HAL_OK then (0, this, w') else (len, this, w'))))"

text \<open>\<open>readBytes\<close> also returns the caller's buffer as the call left it.\<close>

definition readBytes ::
  "'b hal \<Rightarrow> SfeI2C \<Rightarrow> uint8_t list \<Rightarrow> uint8_t \<Rightarrow> 'b world
     \<Rightarrow> uint8_t \<times> uint8_t list \<times> SfeI2C \<times> 'b world" where
  "readBytes hal this data len w =
     (if len = 0 then (0, data, this, w)
      else
        (case HAL_I2C_Master_Receive hal (i2cPort this) (ucast (address this)) data
                (ucast len) HAL_MAX_DELAY w of
           (st, data', w') \<Rightarrow>
             (let ret = status_u8 st
              in if ret \<noteq> status_u8 HAL_OK then (0, data', this, w')
                 else (len, data', this, w'))))"

subsection \<open>A fake bus service and a caller\<close>

text \<open>
  The fake of the spec's tests: it answers every call with the same status and the same
  bytes and counts nothing itself (the trace does).
\<close>

definition fake_bus :: "HAL_StatusTypeDef \<Rightarrow> uint8_t list \<Rightarrow> unit hal" where
  "fake_bus st rx = (\<lambda>c b. ((st, rx), b))"

definition world0 :: "unit world" where
  "world0 = \<lparr>bus = (), trace = []\<rparr>"

text \<open>A caller: any sequence of calls of the five methods on one instance.\<close>

datatype method_call =
    Init I2C_HandleTypeDef uint8_t
  | Ping
  | Available "uint8_t \<times> uint8_t"
  | WriteBytes "uint8_t list" uint8_t
  | ReadBytes "uint8_t list" uint8_t

fun invoke :: "'b hal \<Rightarrow> method_call \<Rightarrow> SfeI2C \<times> 'b world \<Rightarrow> SfeI2C \<times> 'b world" where
  "invoke hal (Init h a) (this, w) = (snd (init this h a), w)"
| "invoke hal Ping (this, w) = snd (ping hal this w)"
| "invoke hal (Available d) (this, w) = snd (available hal this d w)"
| "invoke hal (WriteBytes buf n) (this, w) = snd (writeBytes hal this buf n w)"
| "invoke hal (ReadBytes buf n) (this, w) = snd (snd (readBytes hal this buf n w))"

fun run :: "'b hal \<Rightarrow> method_call list \<Rightarrow> SfeI2C \<times> 'b world \<Rightarrow> SfeI2C \<times> 'b world" where
  "run hal [] s = s"
| "run hal (m # ms) s = run hal ms (invoke hal m s)"

fun is_transfer :: "method_call \<Rightarrow> bool" where
  "is_transfer (Init h a) = False"
| "is_transfer m = True"

section \<open>Properties\<close>

subsection \<open>Auxiliary facts\<close>

text \<open>The comparison \<open>ret != HAL_OK\<close> on the converted status is the comparison of the statuses.\<close>

lemma status_u8_zero_iff: "status_u8 s = 0 \<longleftrightarrow> s = HAL_OK"
  by (cases s) simp_all

text \<open>The count \<open>(uint16_t)msb << 8 | lsb\<close> is the concatenation of the two bytes.\<close>

lemma count_eq_word_cat:
  "(ucast (push_bit 8 (ucast (ucast (msb::8 word) :: 16 word) :: 32 word)
           OR (ucast (lsb::8 word) :: 32 word)) :: 16 word) = word_cat msb lsb"
  by (rule bit_word_eqI) (auto simp add: bit_simps dest: bit_imp_le_length)

lemma unat_word_cat_8_8:
  "unat (word_cat (a::8 word) (b::8 word) :: 16 word) = unat a * 256 + unat b"
proof -
  have a: "unat a < 256" using unsigned_less [of a, where 'a = nat] by simp
  have b: "unat b < 256" using unsigned_less [of b, where 'a = nat] by simp
  have "(word_cat a b :: 16 word) = word_of_nat (unat a * 256 + unat b)"
    by (simp add: word_cat_eq push_bit_eq_mult)
  then have "unat (word_cat a b :: 16 word) = (unat a * 256 + unat b) mod 65536"
    by (simp only: unat_of_nat) simp
  with a b show ?thesis by simp
qed

text \<open>What \<open>init\<close> stores.\<close>

lemma init_port:
  "i2cPort (snd (init this h a)) = (case i2cPort this of None \<Rightarrow> Some h | Some p \<Rightarrow> Some p)"
  by (simp add: init_def Let_def split: option.splits)

lemma init_address: "address (snd (init this h a)) = a"
  by (simp add: init_def Let_def)

text \<open>No transfer method assigns a member.\<close>

lemma ping_this: "fst (snd (ping hal this w)) = this"
  by (simp add: ping_def Let_def split: prod.splits)

lemma available_this: "fst (snd (available hal this d w)) = this"
  by (simp add: available_def Let_def split: prod.splits)

lemma writeBytes_this: "fst (snd (writeBytes hal this buf n w)) = this"
  by (simp add: writeBytes_def Let_def split: prod.splits)

lemma readBytes_this: "fst (snd (snd (readBytes hal this buf n w))) = this"
  by (simp add: readBytes_def Let_def split: prod.splits)

lemma invoke_transfer: "is_transfer m \<Longrightarrow> fst (invoke hal m (this, w)) = this"
  by (cases m) (simp_all add: ping_this available_this writeBytes_this readBytes_this)

lemma invoke_port:
  "i2cPort this = Some h \<Longrightarrow> i2cPort (fst (invoke hal m (this, w))) = Some h"
  by (cases m) (simp_all add: init_port ping_this available_this writeBytes_this readBytes_this)

lemma run_port:
  "i2cPort (fst s) = Some h \<Longrightarrow> i2cPort (fst (run hal ms s)) = Some h"
proof (induction ms arbitrary: s)
  case Nil
  then show ?case by simp
next
  case (Cons m ms)
  obtain this w where s: "s = (this, w)" by (cases s)
  with Cons.prems have "i2cPort (fst (invoke hal m s)) = Some h"
    by (simp add: invoke_port)
  then show ?case using Cons.IH by simp
qed

lemma run_transfer:
  "list_all is_transfer ms \<Longrightarrow> fst (run hal ms s) = fst s"
proof (induction ms arbitrary: s)
  case Nil
  then show ?case by simp
next
  case (Cons m ms)
  obtain this w where s: "s = (this, w)" by (cases s)
  with Cons.prems have "fst (invoke hal m s) = fst s"
    by (simp add: invoke_transfer)
  then show ?case using Cons by simp
qed

subsection \<open>The claims\<close>

text \<open>
  C1. The claim: every transfer operation on an instance whose handle is unset returns its
  sentinel without calling the bus service. \<open>ping\<close> and \<open>available\<close> test
  \<open>_i2cPort\<close> first (see C5 and C10); \<open>writeBytes\<close> and \<open>readBytes\<close> do not. On a
  freshly constructed instance, with a bus service that answers \<open>HAL_OK\<close>, a write and a
  read of one byte each call the bus service with the null handle and return 1, not 0.
\<close>

theorem unbound_write_read_reach_bus:
  "writeBytes (fake_bus HAL_OK []) SfeI2C_ctor [0xB5] 1 world0 =
     (1, SfeI2C_ctor, \<lparr>bus = (), trace = [Master_Transmit None 0 [0xB5] 1 HAL_MAX_DELAY]\<rparr>)
   \<and> readBytes (fake_bus HAL_OK [0x24]) SfeI2C_ctor [0] 1 world0 =
     (1, [0x24], SfeI2C_ctor, \<lparr>bus = (), trace = [Master_Receive None 0 1 HAL_MAX_DELAY]\<rparr>)"
  by (simp add: writeBytes_def readBytes_def HAL_I2C_Master_Transmit_def
      HAL_I2C_Master_Receive_def HAL_call_def fake_bus_def world0_def SfeI2C_ctor_def
      store_def)

text \<open>
  C2. After \<open>init(handleA, addrA)\<close> then \<open>init(handleB, addrB)\<close> the stored address is
  \<open>addrB\<close>, the stored handle is the one stored after the first call, and that one is
  \<open>handleA\<close> when no handle was stored before the first call.
\<close>

theorem first_handle_last_address:
  "address (snd (init (snd (init this hA aA)) hB aB)) = aB
   \<and> i2cPort (snd (init (snd (init this hA aA)) hB aB)) = i2cPort (snd (init this hA aA))
   \<and> (i2cPort this = None \<longrightarrow> i2cPort (snd (init (snd (init this hA aA)) hB aB)) = Some hA)"
  by (auto simp add: init_port init_address split: option.splits)

theorem first_handle_last_address_witness:
  "i2cPort SfeI2C_ctor = None
   \<and> i2cPort (snd (init (snd (init SfeI2C_ctor 1 0x42)) 2 0x43)) = Some 1
   \<and> address (snd (init (snd (init SfeI2C_ctor 1 0x42)) 2 0x43)) = 0x43"
  using first_handle_last_address [where this = SfeI2C_ctor and hA = 1 and aA = "0x42"
      and hB = 2 and aB = "0x43"]
  by (simp add: SfeI2C_ctor_def init_port)

text \<open>
  C3. On a bound instance, when the two-byte register read reports \<open>HAL_OK\<close> and delivered
  the bytes \<open>msb\<close>, \<open>lsb\<close>, \<open>available\<close> returns the 16-bit count \<open>msb * 256 + lsb\<close>;
  when the read reports anything else it returns 0.
\<close>

theorem available_big_endian:
  assumes "i2cPort this = Some h"
    and "hal (Mem_Read (Some h) (ucast (address this)) 0xFD I2C_MEMADD_SIZE_8BIT 2
               HAL_MAX_DELAY) (bus w) = ((st, rx), b')"
  shows "(st = HAL_OK \<and> rx = msb # lsb # rest \<longrightarrow>
            unat (fst (available hal this junk w)) = unat msb * 256 + unat lsb)
         \<and> (st \<noteq> HAL_OK \<longrightarrow> fst (available hal this junk w) = 0)"
  using assms
  by (simp add: available_def HAL_I2C_Mem_Read_def HAL_call_def Let_def status_u8_zero_iff
      store_def count_eq_word_cat unat_word_cat_8_8)

theorem available_big_endian_witness:
  "unat (fst (available (fake_bus HAL_OK [0x01, 0x02]) \<lparr>i2cPort = Some 1, address = 0x42\<rparr>
                (0, 0) world0)) = 258
   \<and> unat (fst (available (fake_bus HAL_OK [0xFF, 0xFF]) \<lparr>i2cPort = Some 1, address = 0x42\<rparr>
                (0, 0) world0)) = 65535
   \<and> fst (available (fake_bus HAL_TIMEOUT []) \<lparr>i2cPort = Some 1, address = 0x42\<rparr>
            (0, 0) world0) = 0"
proof -
  let ?obj = "\<lparr>i2cPort = Some (1::nat), address = 0x42 :: uint8_t\<rparr>"
  have bound: "i2cPort ?obj = Some 1" by simp
  have r1: "fake_bus HAL_OK [0x01, 0x02]
              (Mem_Read (Some 1) (ucast (address ?obj)) 0xFD I2C_MEMADD_SIZE_8BIT 2 HAL_MAX_DELAY)
              (bus world0) = ((HAL_OK, [0x01, 0x02]), ())"
    by (simp add: fake_bus_def)
  have r2: "fake_bus HAL_OK [0xFF, 0xFF]
              (Mem_Read (Some 1) (ucast (address ?obj)) 0xFD I2C_MEMADD_SIZE_8BIT 2 HAL_MAX_DELAY)
              (bus world0) = ((HAL_OK, [0xFF, 0xFF]), ())"
    by (simp add: fake_bus_def)
  have r3: "fake_bus HAL_TIMEOUT []
              (Mem_Read (Some 1) (ucast (address ?obj)) 0xFD I2C_MEMADD_SIZE_8BIT 2 HAL_MAX_DELAY)
              (bus world0) = ((HAL_TIMEOUT, []), ())"
    by (simp add: fake_bus_def)
  show ?thesis
    using available_big_endian [where hal = "fake_bus HAL_OK [0x01, 0x02]" and this = ?obj
        and h = 1 and w = world0 and st = HAL_OK and rx = "[0x01, 0x02]" and b' = "()"
        and msb = "0x01" and lsb = "0x02" and rest = "[]" and junk = "(0, 0)", OF bound r1]
      available_big_endian [where hal = "fake_bus HAL_OK [0xFF, 0xFF]" and this = ?obj
        and h = 1 and w = world0 and st = HAL_OK and rx = "[0xFF, 0xFF]" and b' = "()"
        and msb = "0xFF" and lsb = "0xFF" and rest = "[]" and junk = "(0, 0)", OF bound r2]
      available_big_endian [where hal = "fake_bus HAL_TIMEOUT []" and this = ?obj
        and h = 1 and w = world0 and st = HAL_TIMEOUT and rx = "[]" and b' = "()"
        and junk = "(0, 0)", OF bound r3]
    by simp
qed

text \<open>
  C4. For every length from 1 to 255 (every non-zero \<open>uint8_t\<close>), \<open>writeBytes\<close> returns
  the length when the transmit reports \<open>HAL_OK\<close> and 0 when it reports anything else,
  \<open>readBytes\<close> likewise with the receive, and neither ever returns a value other than 0
  or the length.
\<close>

theorem transfer_all_or_nothing:
  assumes "len \<noteq> 0"
  shows "fst (writeBytes hal this buf len w) =
           (if fst (fst (hal (Master_Transmit (i2cPort this) (ucast (address this)) buf
                               (ucast len) HAL_MAX_DELAY) (bus w))) = HAL_OK
            then len else 0)
         \<and> fst (readBytes hal this buf len w) =
           (if fst (fst (hal (Master_Receive (i2cPort this) (ucast (address this))
                               (ucast len) HAL_MAX_DELAY) (bus w))) = HAL_OK
            then len else 0)
         \<and> fst (writeBytes hal this buf len w) \<in> {0, len}
         \<and> fst (readBytes hal this buf len w) \<in> {0, len}"
  using assms
  by (simp add: writeBytes_def readBytes_def HAL_I2C_Master_Transmit_def
      HAL_I2C_Master_Receive_def HAL_call_def Let_def status_u8_zero_iff split: prod.splits)

theorem transfer_all_or_nothing_witness:
  "(8 :: uint8_t) \<noteq> 0
   \<and> fst (writeBytes (fake_bus HAL_OK []) \<lparr>i2cPort = Some 1, address = 0x42\<rparr>
            [0xB5, 0x62, 6, 4, 0, 0, 10, 34] 8 world0) = 8
   \<and> fst (readBytes (fake_bus HAL_OK []) \<lparr>i2cPort = Some 1, address = 0x42\<rparr>
            [0xB5, 0x62, 6, 4, 0, 0, 10, 34] 8 world0) = 8
   \<and> fst (writeBytes (fake_bus HAL_ERROR []) \<lparr>i2cPort = Some 1, address = 0x42\<rparr>
            [0xB5, 0x62, 6, 4, 0, 0, 10, 34] 8 world0) = 0
   \<and> fst (readBytes (fake_bus HAL_ERROR []) \<lparr>i2cPort = Some 1, address = 0x42\<rparr>
            [0xB5, 0x62, 6, 4, 0, 0, 10, 34] 8 world0) = 0"
proof -
  have len: "(8 :: uint8_t) \<noteq> 0" by simp
  show ?thesis
    using len
      transfer_all_or_nothing [OF len, where hal = "fake_bus HAL_OK []"
        and this = "\<lparr>i2cPort = Some 1, address = 0x42\<rparr>"
        and buf = "[0xB5, 0x62, 6, 4, 0, 0, 10, 34]" and w = world0]
      transfer_all_or_nothing [OF len, where hal = "fake_bus HAL_ERROR []"
        and this = "\<lparr>i2cPort = Some 1, address = 0x42\<rparr>"
        and buf = "[0xB5, 0x62, 6, 4, 0, 0, 10, 34]" and w = world0]
    by (simp add: fake_bus_def)
qed

text \<open>
  C5. \<open>ping\<close> on an instance with no handle returns false and calls nothing; in general
  it returns true exactly when a handle is stored and the presence check (3 trials,
  timeout 5, at the stored address) reports \<open>HAL_OK\<close>, and false on every other status.
\<close>

theorem ping_present_iff:
  "(i2cPort this = None \<longrightarrow> ping hal this w = (False, this, w))
   \<and> fst (ping hal this w) =
       (i2cPort this \<noteq> None \<and>
        fst (fst (hal (IsDeviceReady (i2cPort this) (ucast (address this)) 3 5) (bus w)))
          = HAL_OK)"
  by (simp add: ping_def HAL_I2C_IsDeviceReady_def HAL_call_def Let_def status_u8_zero_iff
      split: prod.splits)

theorem ping_present_iff_witness:
  "i2cPort SfeI2C_ctor = None
   \<and> ping (fake_bus HAL_OK []) SfeI2C_ctor world0 = (False, SfeI2C_ctor, world0)
   \<and> fst (ping (fake_bus HAL_OK []) \<lparr>i2cPort = Some 1, address = 0x42\<rparr> world0)
   \<and> \<not> fst (ping (fake_bus HAL_ERROR []) \<lparr>i2cPort = Some 1, address = 0x42\<rparr> world0)
   \<and> \<not> fst (ping (fake_bus HAL_TIMEOUT []) \<lparr>i2cPort = Some 1, address = 0x42\<rparr> world0)"
  using ping_present_iff [where hal = "fake_bus HAL_OK []" and this = SfeI2C_ctor
      and w = world0]
    ping_present_iff [where hal = "fake_bus HAL_OK []"
      and this = "\<lparr>i2cPort = Some 1, address = 0x42\<rparr>" and w = world0]
    ping_present_iff [where hal = "fake_bus HAL_ERROR []"
      and this = "\<lparr>i2cPort = Some 1, address = 0x42\<rparr>" and w = world0]
    ping_present_iff [where hal = "fake_bus HAL_TIMEOUT []"
      and this = "\<lparr>i2cPort = Some 1, address = 0x42\<rparr>" and w = world0]
  by (simp add: fake_bus_def SfeI2C_ctor_def)

text \<open>
  C6. With length 0, \<open>writeBytes\<close> and \<open>readBytes\<close> return 0 and leave the object, the
  buffer and the world (the bus's state and the trace of calls) as they were: no call
  reaches the bus service.
\<close>

theorem zero_length_no_bus_call:
  "writeBytes hal this buf 0 w = (0, this, w)
   \<and> readBytes hal this buf 0 w = (0, buf, this, w)"
  by (simp add: writeBytes_def readBytes_def)

text \<open>
  C7. Once a handle is stored, it stays stored, the same one, through every sequence of
  calls of \<open>init\<close>, \<open>ping\<close>, \<open>available\<close>, \<open>writeBytes\<close> and \<open>readBytes\<close>; and a
  sequence of transfer calls only (no \<open>init\<close>) leaves the whole object, so also the
  stored address, as it was.
\<close>

theorem bound_is_terminal:
  "(i2cPort this = Some h \<longrightarrow> i2cPort (fst (run hal ms (this, w))) = Some h)
   \<and> (list_all is_transfer ms \<longrightarrow> fst (run hal ms (this, w)) = this)"
  using run_port [of "(this, w)" h hal ms] run_transfer [of ms hal "(this, w)"] by simp

theorem bound_is_terminal_witness:
  "i2cPort \<lparr>i2cPort = Some 1, address = 0x42\<rparr> = Some 1
   \<and> i2cPort (fst (run (fake_bus HAL_OK [0, 12])
        [Init 2 0x43, Ping, WriteBytes [0xB5, 0x62] 2, Available (0, 0), ReadBytes [0, 0] 2,
         Init 3 0x44]
        (\<lparr>i2cPort = Some 1, address = 0x42\<rparr>, world0))) = Some 1
   \<and> list_all is_transfer [Ping, WriteBytes [0xB5, 0x62] 2, Available (0, 0), ReadBytes [0, 0] 2]
   \<and> fst (run (fake_bus HAL_OK [0, 12])
        [Ping, WriteBytes [0xB5, 0x62] 2, Available (0, 0), ReadBytes [0, 0] 2]
        (\<lparr>i2cPort = Some 1, address = 0x42\<rparr>, world0)) = \<lparr>i2cPort = Some 1, address = 0x42\<rparr>"
  using bound_is_terminal [where this = "\<lparr>i2cPort = Some 1, address = 0x42\<rparr>" and h = 1
      and hal = "fake_bus HAL_OK [0, 12]" and w = world0
      and ms = "[Init 2 0x43, Ping, WriteBytes [0xB5, 0x62] 2, Available (0, 0),
                 ReadBytes [0, 0] 2, Init 3 0x44]"]
    bound_is_terminal [where this = "\<lparr>i2cPort = Some 1, address = 0x42\<rparr>" and h = 1
      and hal = "fake_bus HAL_OK [0, 12]" and w = world0
      and ms = "[Ping, WriteBytes [0xB5, 0x62] 2, Available (0, 0), ReadBytes [0, 0] 2]"]
  by simp

text \<open>
  C8. \<open>init\<close> with the same handle and address a second time returns the same result
  and leaves the object as the first call left it, and so does any number of further such
  calls.
\<close>

theorem init_twice_same_args:
  "init (snd (init this h a)) h a = init this h a
   \<and> run hal (replicate (Suc n) (Init h a)) (this, w) = run hal [Init h a] (this, w)"
proof
  show one: "init (snd (init this h a)) h a = init this h a" for this
    by (simp add: init_def Let_def)
  have "run hal (replicate n (Init h a)) (snd (init this h a), w) = (snd (init this h a), w)"
    by (induction n) (simp_all add: one)
  then show "run hal (replicate (Suc n) (Init h a)) (this, w) = run hal [Init h a] (this, w)"
    by simp
qed

text \<open>
  C9. \<open>init\<close> returns true for every handle, every 8-bit address (128 to 255 too) and
  every state of the object, a handle already stored or not.
\<close>

theorem init_always_true: "fst (init this i2cHandle addr) = True"
  by (simp add: init_def Let_def)

text \<open>
  C10. The constructed object has no handle and address 0; on it \<open>ping\<close> returns false
  and \<open>available\<close> returns 0, both without a call to the bus service.
\<close>

theorem fresh_instance_unbound:
  "i2cPort SfeI2C_ctor = None \<and> address SfeI2C_ctor = 0
   \<and> ping hal SfeI2C_ctor w = (False, SfeI2C_ctor, w)
   \<and> available hal SfeI2C_ctor junk w = (0, SfeI2C_ctor, w)"
  by (simp add: SfeI2C_ctor_def ping_def available_def)

end
